theory Spec2Isabelle
  imports Main
begin

section \<open>Python values used by \<open>tg/utils.py\<close>\<close>

text \<open>
  Exceptions are values: a function of the source that can raise returns
  \<open>exn + 'a\<close>, with \<open>Inl\<close> for the exception. Only the exception classes are kept,
  not their messages.
\<close>

datatype exn =
    ValueError | KeyError | IndexError | AttributeError | OSError | UnicodeDecodeError

text \<open>
  Python's truth test on an \<open>Optional[str]\<close>: \<open>not x\<close> holds for \<open>None\<close> and for the
  empty string.
\<close>

fun truthy :: "string option \<Rightarrow> bool" where
  "truthy None = False"
| "truthy (Some s) = (s \<noteq> [])"

section \<open>\<open>shlex.quote\<close>\<close>

text \<open>
  The standard library's \<open>shlex.quote\<close>: the empty string becomes two single quotes, a
  string made only of the characters \<open>[a-zA-Z0-9_@%+=:,./-]\<close> is returned as it is, and
  any other string is wrapped in single quotes, each single quote inside it replaced
  by \<open>'"'"'\<close>. A character is a byte here; every byte outside ASCII is unsafe, as a
  code point outside ASCII is for the \<open>re.ASCII\<close> pattern of the library.
\<close>

definition squote :: char where
  "squote = CHR 0x27"

definition dquote :: char where
  "dquote = CHR 0x22"

definition safe_char :: "char \<Rightarrow> bool" where
  "safe_char c =
     (let n = (of_char c :: nat) in
        (97 \<le> n \<and> n \<le> 122) \<or> (65 \<le> n \<and> n \<le> 90) \<or> (48 \<le> n \<and> n \<le> 57)
        \<or> c \<in> set ''_@%+=:,./-'')"

definition replace_squote :: "string \<Rightarrow> string" where
  "replace_squote s =
     concat (map (\<lambda>c. if c = squote then [squote, dquote, squote, dquote, squote] else [c]) s)"

definition quote :: "string \<Rightarrow> string" where
  "quote s =
     (if s = [] then [squote, squote]
      else if list_all safe_char s then s
      else [squote] @ replace_squote s @ [squote])"

section \<open>\<open>str.format\<close> with the one keyword argument \<open>file_path\<close>\<close>

text \<open>
  \<open>config.DEFAULT_OPEN.format(file_path=v)\<close> scans the template from left to right.
  \<open>{{\<close> and \<open>}}\<close> stand for a brace, a lone \<open>}\<close> and an unclosed \<open>{\<close> raise
  \<open>ValueError\<close>, \<open>{file_path}\<close> is replaced by \<open>v\<close>, a field with an empty or
  numeric name raises \<open>IndexError\<close> (there is no positional argument) and a field with
  any other name raises \<open>KeyError\<close>. The first failure met is the one raised.

  The scanner is a small automaton: \<open>Lit\<close> in literal text, \<open>Open\<close> after a \<open>{\<close>,
  \<open>Close\<close> after a \<open>}\<close> in literal text, \<open>Field n\<close> inside a replacement field whose
  name read so far is \<open>n\<close>. Replacement fields with a conversion (\<open>!r\<close>), a format
  specification (\<open>:>10\<close>), an attribute or an index are outside the fragment modelled
  here; the scanner answers \<open>ValueError\<close> on meeting \<open>!\<close>, \<open>:\<close>, \<open>.\<close>, \<open>[\<close> or \<open>{\<close>
  inside a field, and no statement below is about such a template.
\<close>

datatype fstate = Lit | Open | Close | Field string

definition lookup_field :: "string \<Rightarrow> string \<Rightarrow> exn + string" where
  "lookup_field n v =
     (if n = ''file_path'' then Inr v
      else if list_all (\<lambda>c. 48 \<le> (of_char c :: nat) \<and> (of_char c :: nat) \<le> 57) n
        then Inl IndexError
      else Inl KeyError)"

definition emit :: "string \<Rightarrow> exn + string \<Rightarrow> exn + string" where
  "emit pre r = (case r of Inl e \<Rightarrow> Inl e | Inr t \<Rightarrow> Inr (pre @ t))"

fun scan :: "fstate \<Rightarrow> string \<Rightarrow> string \<Rightarrow> exn + string" where
  "scan Lit [] v = Inr []"
| "scan Open [] v = Inl ValueError"
| "scan Close [] v = Inl ValueError"
| "scan (Field n) [] v = Inl ValueError"
| "scan Lit (c # cs) v =
     (if c = CHR ''{'' then scan Open cs v
      else if c = CHR ''}'' then scan Close cs v
      else emit [c] (scan Lit cs v))"
| "scan Open (c # cs) v =
     (if c = CHR ''{'' then emit ''{'' (scan Lit cs v)
      else if c = CHR ''}'' then Inl IndexError
      else if c \<in> set ''!:.['' then Inl ValueError
      else scan (Field [c]) cs v)"
| "scan Close (c # cs) v =
     (if c = CHR ''}'' then emit ''}'' (scan Lit cs v) else Inl ValueError)"
| "scan (Field n) (c # cs) v =
     (if c = CHR ''}''
      then (case lookup_field n v of Inl e \<Rightarrow> Inl e | Inr t \<Rightarrow> emit t (scan Lit cs v))
      else if c \<in> set ''!:.[{'' then Inl ValueError
      else scan (Field (n @ [c])) cs v)"

definition format_file_path :: "string \<Rightarrow> string \<Rightarrow> exn + string" where
  "format_file_path template v = scan Lit template v"

section \<open>The terminal, the three display regions and the \<open>suspend\<close> context manager\<close>

text \<open>
  \<open>view._refresh\<close> holds one of the two bound methods of the region's window.
  In curses, \<open>window.noutrefresh\<close> marks the window for refresh but waits (the screen
  changes at the next \<open>doupdate\<close>), and \<open>window.refresh\<close> updates the display
  immediately.
\<close>

datatype refresh_fn = Win_noutrefresh | Win_refresh

definition batched :: "refresh_fn \<Rightarrow> bool" where
  "batched f = (f = Win_noutrefresh)"

definition immediate :: "refresh_fn \<Rightarrow> bool" where
  "immediate f = (f = Win_refresh)"

datatype region = Chats | Msgs | Status

text \<open>
  Every call that reaches curses or starts a process is recorded, in order, in the
  \<open>trace\<close> of the state: \<open>Popen cmd input\<close> for a child started by \<open>subprocess\<close>,
  \<open>Os_system cmd\<close> for a command the standard library runs with \<open>os.system\<close>.
\<close>

datatype event =
    Set_refresh region refresh_fn
  | Echo
  | Nocbreak
  | Noecho
  | Cbreak
  | Keypad bool
  | Curs_set int
  | Endwin
  | Doupdate
  | Popen string "string option"
  | Os_system string

text \<open>
  The state the context manager works on: the \<open>_refresh\<close> attribute of
  \<open>view.chats\<close>, \<open>view.msgs\<close> and \<open>view.status\<close>, the modes of the terminal that
  curses keeps (echo, cbreak, keypad of \<open>stdscr\<close>, cursor visibility, whether
  \<open>endwin\<close> was the last word), and the trace. The curses calls are taken to succeed.
\<close>

record tstate =
  chats_refresh :: refresh_fn
  msgs_refresh :: refresh_fn
  status_refresh :: refresh_fn
  echo :: bool
  cbreak :: bool
  keypad :: bool
  cursor :: int
  isendwin :: bool
  trace :: "event list"

definition log :: "event \<Rightarrow> tstate \<Rightarrow> tstate" where
  "log ev s = s\<lparr>trace := trace s @ [ev]\<rparr>"

definition set_refresh :: "region \<Rightarrow> refresh_fn \<Rightarrow> tstate \<Rightarrow> tstate" where
  "set_refresh r f s =
     log (Set_refresh r f)
       (case r of
          Chats \<Rightarrow> s\<lparr>chats_refresh := f\<rparr>
        | Msgs \<Rightarrow> s\<lparr>msgs_refresh := f\<rparr>
        | Status \<Rightarrow> s\<lparr>status_refresh := f\<rparr>)"

definition curses_echo :: "tstate \<Rightarrow> tstate" where
  "curses_echo s = log Echo (s\<lparr>echo := True\<rparr>)"

definition curses_noecho :: "tstate \<Rightarrow> tstate" where
  "curses_noecho s = log Noecho (s\<lparr>echo := False\<rparr>)"

definition curses_cbreak :: "tstate \<Rightarrow> tstate" where
  "curses_cbreak s = log Cbreak (s\<lparr>cbreak := True\<rparr>)"

definition curses_nocbreak :: "tstate \<Rightarrow> tstate" where
  "curses_nocbreak s = log Nocbreak (s\<lparr>cbreak := False\<rparr>)"

definition stdscr_keypad :: "bool \<Rightarrow> tstate \<Rightarrow> tstate" where
  "stdscr_keypad b s = log (Keypad b) (s\<lparr>keypad := b\<rparr>)"

definition curses_curs_set :: "int \<Rightarrow> tstate \<Rightarrow> tstate" where
  "curses_curs_set v s = log (Curs_set v) (s\<lparr>cursor := v\<rparr>)"

definition curses_endwin :: "tstate \<Rightarrow> tstate" where
  "curses_endwin s = log Endwin (s\<lparr>isendwin := True\<rparr>)"

definition curses_doupdate :: "tstate \<Rightarrow> tstate" where
  "curses_doupdate s = log Doupdate (s\<lparr>isendwin := False\<rparr>)"

text \<open>\<open>suspend.__enter__\<close>: the loop over the three regions, then the five curses calls.\<close>

definition suspend_enter :: "tstate \<Rightarrow> tstate" where
  "suspend_enter s =
     curses_endwin (curses_curs_set 1 (stdscr_keypad False (curses_nocbreak (curses_echo
       (fold (\<lambda>r. set_refresh r Win_noutrefresh) [Chats, Msgs, Status] s)))))"

text \<open>\<open>suspend.__exit__\<close>; it returns \<open>None\<close>, so it never swallows an exception.\<close>

definition suspend_exit :: "tstate \<Rightarrow> tstate" where
  "suspend_exit s =
     curses_doupdate (curses_curs_set 0 (stdscr_keypad True (curses_cbreak (curses_noecho
       (fold (\<lambda>r. set_refresh r Win_refresh) [Chats, Msgs, Status] s)))))"

section \<open>The collaborators of \<open>get_file_handler\<close> and of the child processes\<close>

text \<open>
  What the source reads from outside itself is a parameter:
  \<^item> \<open>guess_type p\<close> is the first component of \<open>mimetypes.guess_type(p)\<close>, or the
    exception the call raises (\<open>ValueError\<close> for a path the URL parser of the library
    refuses, such as \<open>//[.txt\<close>);
  \<^item> \<open>getcaps\<close> is whether \<open>mailcap.getcaps()\<close> returns or which exception it lets
    out (it catches the \<open>OSError\<close> of opening a mailcap file and nothing else, so a
    file that does not decode raises \<open>UnicodeDecodeError\<close>); the dictionary it returns
    is not modelled, what \<open>findmatch\<close> makes of it is;
  \<^item> \<open>findmatch m p\<close> is the first component of
    \<open>mailcap.findmatch(caps, m, filename=p)\<close>, and \<open>findmatch_tests m p\<close> are the
    \<open>test=\<close> commands of the candidate entries that this call runs with \<open>os.system\<close>,
    in order, before it answers;
  \<^item> \<open>DEFAULT_OPEN\<close> is \<open>config.DEFAULT_OPEN\<close>, \<open>None\<close> when the configuration leaves it
    unset;
  \<^item> \<open>shell cmd input\<close> is how a child started with \<open>shell=True\<close> ends: with an exit
    status (127 when the shell does not find the command), or with an exception
    raised by the launch itself. A child that never exits is not described.
\<close>

datatype outcome = Exited int | Launch_failed exn

record env =
  guess_type :: "string \<Rightarrow> exn + string option"
  getcaps :: "exn + unit"
  findmatch_tests :: "string \<Rightarrow> string \<Rightarrow> string list"
  findmatch :: "string \<Rightarrow> string \<Rightarrow> string option"
  DEFAULT_OPEN :: "string option"
  shell :: "string \<Rightarrow> string option \<Rightarrow> outcome"

section \<open>\<open>get_file_handler\<close>\<close>

text \<open>The \<open>test=\<close> commands of one \<open>findmatch\<close> call, each run with \<open>os.system\<close>.\<close>

definition run_tests :: "string list \<Rightarrow> tstate \<Rightarrow> tstate" where
  "run_tests tests s = fold (\<lambda>t. log (Os_system t)) tests s"

text \<open>
  The function has no \<open>try\<close>: an exception of \<open>guess_type\<close>, of \<open>getcaps\<close> or of
  \<open>format\<close> leaves it as it is. The state is threaded through for the processes that
  \<open>findmatch\<close> starts.
\<close>

definition get_file_handler ::
    "env \<Rightarrow> string \<Rightarrow> string option \<Rightarrow> tstate \<Rightarrow> (exn + string option) \<times> tstate" where
  "get_file_handler e file_path default_arg s =
     (case guess_type e file_path of
        Inl x \<Rightarrow> (Inl x, s)
      | Inr guessed \<Rightarrow>
          (case guessed of
             None \<Rightarrow> (Inr default_arg, s)
           | Some mtype \<Rightarrow>
               if mtype = [] then (Inr default_arg, s)
               else
                 (case getcaps e of
                    Inl x \<Rightarrow> (Inl x, s)
                  | Inr caps \<Rightarrow>
                      let s' = run_tests (findmatch_tests e mtype file_path) s;
                          handler = findmatch e mtype file_path
                      in
                        if \<not> truthy handler then
                          (case DEFAULT_OPEN e of
                             None \<Rightarrow> (Inl AttributeError, s')
                           | Some template \<Rightarrow>
                               (case format_file_path template (quote file_path) of
                                  Inl x \<Rightarrow> (Inl x, s')
                                | Inr cmd \<Rightarrow> (Inr (Some cmd), s')))
                        else (Inr handler, s'))))"

section \<open>The operations of \<open>suspend\<close> and the suspend scope\<close>

text \<open>
  \<open>suspend.call\<close> and \<open>suspend.run_with_input\<close>: the child is started through the
  shell and waited for; what \<open>subprocess.call\<close> and \<open>subprocess.run\<close> return is
  dropped. An exception of the launch is not caught.
\<close>

definition suspend_call :: "env \<Rightarrow> string \<Rightarrow> tstate \<Rightarrow> (exn + unit) \<times> tstate" where
  "suspend_call e cmd s =
     (case shell e cmd None of
        Launch_failed x \<Rightarrow> (Inl x, log (Popen cmd None) s)
      | Exited rc \<Rightarrow> (Inr (), log (Popen cmd None) s))"

definition suspend_run_with_input ::
    "env \<Rightarrow> string \<Rightarrow> string \<Rightarrow> tstate \<Rightarrow> (exn + unit) \<times> tstate" where
  "suspend_run_with_input e cmd text s =
     (case shell e cmd (Some text) of
        Launch_failed x \<Rightarrow> (Inl x, log (Popen cmd (Some text)) s)
      | Exited rc \<Rightarrow> (Inr (), log (Popen cmd (Some text)) s))"

text \<open>\<open>suspend.open_file\<close>: the resolver is called without its second argument.\<close>

definition suspend_open_file :: "env \<Rightarrow> string \<Rightarrow> tstate \<Rightarrow> (exn + unit) \<times> tstate" where
  "suspend_open_file e file_path s =
     (case get_file_handler e file_path None s of
        (Inl x, s') \<Rightarrow> (Inl x, s')
      | (Inr cmd, s') \<Rightarrow>
          (case cmd of
             None \<Rightarrow> (Inr (), s')
           | Some c \<Rightarrow> if c = [] then (Inr (), s') else suspend_call e c s'))"

text \<open>
  A suspend scope, \<open>with suspend(view) as s: body\<close>: \<open>__enter__\<close>, the body, then
  \<open>__exit__\<close> whether the body returned or raised; as \<open>__exit__\<close> returns \<open>None\<close>, an
  exception of the body leaves the scope after it.
\<close>

definition suspend_scope ::
    "(tstate \<Rightarrow> (exn + 'a) \<times> tstate) \<Rightarrow> tstate \<Rightarrow> (exn + 'a) \<times> tstate" where
  "suspend_scope body s =
     (case body (suspend_enter s) of
        (Inl x, s') \<Rightarrow> (Inl x, suspend_exit s')
      | (Inr v, s') \<Rightarrow> (Inr v, suspend_exit s'))"

text \<open>The part of the state the properties speak of, and the events of one exit.\<close>

definition ui_state ::
    "tstate \<Rightarrow> refresh_fn \<times> refresh_fn \<times> refresh_fn \<times> bool \<times> bool \<times> bool \<times> int" where
  "ui_state s =
     (chats_refresh s, msgs_refresh s, status_refresh s, echo s, cbreak s, keypad s, cursor s)"

definition exit_events :: "event list" where
  "exit_events =
     [Set_refresh Chats Win_refresh, Set_refresh Msgs Win_refresh,
      Set_refresh Status Win_refresh, Noecho, Cbreak, Keypad True, Curs_set 0, Doupdate]"

definition enter_events :: "event list" where
  "enter_events =
     [Set_refresh Chats Win_noutrefresh, Set_refresh Msgs Win_noutrefresh,
      Set_refresh Status Win_noutrefresh, Echo, Nocbreak, Keypad False, Curs_set 1, Endwin]"

definition active_ui ::
    "refresh_fn \<times> refresh_fn \<times> refresh_fn \<times> bool \<times> bool \<times> bool \<times> int" where
  "active_ui = (Win_refresh, Win_refresh, Win_refresh, False, True, True, 0)"

definition suspended_ui ::
    "refresh_fn \<times> refresh_fn \<times> refresh_fn \<times> bool \<times> bool \<times> bool \<times> int" where
  "suspended_ui = (Win_noutrefresh, Win_noutrefresh, Win_noutrefresh, True, False, False, 1)"

definition is_popen :: "event \<Rightarrow> bool" where
  "is_popen ev = (case ev of Popen c i \<Rightarrow> True | _ \<Rightarrow> False)"

text \<open>A process launch of either kind.\<close>

definition is_launch :: "event \<Rightarrow> bool" where
  "is_launch ev = (case ev of Popen c i \<Rightarrow> True | Os_system c \<Rightarrow> True | _ \<Rightarrow> False)"

text \<open>The events a step added to the trace of the state it started from.\<close>

definition new_events :: "tstate \<Rightarrow> tstate \<Rightarrow> event list" where
  "new_events s s' = drop (length (trace s)) (trace s')"

section \<open>Templates and look-ups used in the statements\<close>


definition brace_free :: "string \<Rightarrow> bool" where
  "brace_free t = list_all (\<lambda>c. c \<noteq> CHR ''{'' \<and> c \<noteq> CHR ''}'') t"

text \<open>The media type is guessed and the registry has a command for it.\<close>

definition registry_match :: "env \<Rightarrow> string \<Rightarrow> bool" where
  "registry_match e file_path =
     (case guess_type e file_path of
        Inl x \<Rightarrow> False
      | Inr guessed \<Rightarrow>
          (case guessed of
             None \<Rightarrow> False
           | Some mtype \<Rightarrow> mtype \<noteq> [] \<and> truthy (findmatch e mtype file_path)))"


section \<open>Concrete collaborators and states\<close>

text \<open>
  An environment where a path ending in \<open>.mp4\<close> is a video with a registered player
  whose mailcap entry has a \<open>test=\<close> command, a path ending in \<open>.txt\<close> is text
  without a registered viewer, nothing else has a media type, the default opener is
  \<open>less {file_path}\<close> and the shell finds no command (status 127).
\<close>

definition has_ext :: "string \<Rightarrow> string \<Rightarrow> bool" where
  "has_ext x p = (length x < length p \<and> drop (length p - length x) p = x)"

definition demo_env :: env where
  "demo_env =
     \<lparr>guess_type = (\<lambda>p. if has_ext ''.mp4'' p then Inr (Some ''video/mp4'')
                        else if has_ext ''.txt'' p then Inr (Some ''text/plain'')
                        else Inr None),
      getcaps = Inr (),
      findmatch_tests = (\<lambda>m p. if m = ''video/mp4'' then [''test -n $DISPLAY''] else []),
      findmatch = (\<lambda>m p. if m = ''video/mp4'' then Some (''mpv '' @ p) else None),
      DEFAULT_OPEN = Some ''less {file_path}'',
      shell = (\<lambda>cmd inp. Exited 127)\<rparr>"

text \<open>
  The same with the default opener unset, with the empty template, with a launch
  that raises, with a \<open>guess_type\<close> that raises on \<open>//[.txt\<close>, and with a mailcap file
  that does not decode.
\<close>

definition unset_env :: env where
  "unset_env = demo_env\<lparr>DEFAULT_OPEN := None\<rparr>"

definition empty_env :: env where
  "empty_env = demo_env\<lparr>DEFAULT_OPEN := Some []\<rparr>"

definition failing_env :: env where
  "failing_env = demo_env\<lparr>shell := (\<lambda>cmd inp. Launch_failed OSError)\<rparr>"

definition raising_env :: env where
  "raising_env =
     demo_env\<lparr>guess_type :=
       (\<lambda>p. if p = ''//[.txt'' then Inl ValueError else guess_type demo_env p)\<rparr>"

definition caps_env :: env where
  "caps_env = demo_env\<lparr>getcaps := Inl UnicodeDecodeError\<rparr>"

text \<open>
  The state \<open>__exit__\<close> leaves: immediate refresh, no echo, cbreak, keypad decoding,
  hidden cursor. And a state that differs from it in the echo flag only.
\<close>

definition active_state :: tstate where
  "active_state =
     \<lparr>chats_refresh = Win_refresh, msgs_refresh = Win_refresh, status_refresh = Win_refresh,
      echo = False, cbreak = True, keypad = True, cursor = 0, isendwin = False, trace = []\<rparr>"

definition echo_state :: tstate where
  "echo_state = active_state\<lparr>echo := True\<rparr>"

section \<open>Facts about the building blocks\<close>

lemmas curses_defs =
  log_def set_refresh_def curses_echo_def curses_noecho_def curses_cbreak_def
  curses_nocbreak_def stdscr_keypad_def curses_curs_set_def curses_endwin_def
  curses_doupdate_def

lemma ui_state_suspend_exit: "ui_state (suspend_exit s) = active_ui"
  by (simp add: suspend_exit_def ui_state_def active_ui_def curses_defs)

lemma ui_state_suspend_enter: "ui_state (suspend_enter s) = suspended_ui"
  by (simp add: suspend_enter_def ui_state_def suspended_ui_def curses_defs)

lemma trace_suspend_exit: "trace (suspend_exit s) = trace s @ exit_events"
  by (simp add: suspend_exit_def exit_events_def curses_defs)

lemma trace_suspend_enter: "trace (suspend_enter s) = trace s @ enter_events"
  by (simp add: suspend_enter_def enter_events_def curses_defs)

lemma isendwin_suspend_exit: "isendwin (suspend_exit s) = False"
  by (simp add: suspend_exit_def curses_defs)

lemma ui_state_log: "ui_state (log ev s) = ui_state s"
  by (simp add: ui_state_def log_def)

lemma trace_log: "trace (log ev s) = trace s @ [ev]"
  by (simp add: log_def)

lemma isendwin_log: "isendwin (log ev s) = isendwin s"
  by (simp add: log_def)

lemma trace_run_tests: "trace (run_tests ts s) = trace s @ map Os_system ts"
  unfolding run_tests_def by (induction ts arbitrary: s) (simp_all add: trace_log)

lemma ui_state_run_tests: "ui_state (run_tests ts s) = ui_state s"
  unfolding run_tests_def by (induction ts arbitrary: s) (simp_all add: ui_state_log)

lemma isendwin_run_tests: "isendwin (run_tests ts s) = isendwin s"
  unfolding run_tests_def by (induction ts arbitrary: s) (simp_all add: isendwin_log)

lemma new_events_append: "trace s' = trace s @ evs \<Longrightarrow> new_events s s' = evs"
  by (simp add: new_events_def)

lemma suspend_call_cases:
  "suspend_call e cmd s =
     ((case shell e cmd None of Launch_failed x \<Rightarrow> Inl x | Exited rc \<Rightarrow> Inr ()),
      log (Popen cmd None) s)"
  by (simp add: suspend_call_def split: outcome.splits)

lemma suspend_run_with_input_cases:
  "suspend_run_with_input e cmd text s =
     ((case shell e cmd (Some text) of Launch_failed x \<Rightarrow> Inl x | Exited rc \<Rightarrow> Inr ()),
      log (Popen cmd (Some text)) s)"
  by (simp add: suspend_run_with_input_def split: outcome.splits)

lemma suspend_scope_pair:
  "suspend_scope body s =
     (fst (body (suspend_enter s)), suspend_exit (snd (body (suspend_enter s))))"
  by (simp add: suspend_scope_def split: prod.splits sum.splits)

lemma scan_brace_free: "brace_free t \<Longrightarrow> scan Lit t v = Inr t"
  by (induction t) (simp_all add: brace_free_def emit_def)

lemma scan_placeholder:
  "brace_free pre \<Longrightarrow> brace_free post \<Longrightarrow>
     scan Lit (pre @ ''{file_path}'' @ post) v = Inr (pre @ v @ post)"
  by (induction pre) (simp_all add: brace_free_def emit_def lookup_field_def scan_brace_free)








section \<open>Facts about the resolver and the payload operations\<close>

lemma truthy_Some: "truthy x \<Longrightarrow> \<exists>y. x = Some y \<and> y \<noteq> []"
  by (cases x) simp_all


lemma get_file_handler_no_type:
  "guess_type e p = Inr g \<Longrightarrow> \<not> truthy g \<Longrightarrow> get_file_handler e p d s = (Inr d, s)"
  by (cases g) (simp_all add: get_file_handler_def)


lemma get_file_handler_registry:
  "guess_type e p = Inr (Some m) \<Longrightarrow> m \<noteq> [] \<Longrightarrow> getcaps e = Inr u \<Longrightarrow>
     truthy (findmatch e m p) \<Longrightarrow>
     get_file_handler e p d s = (Inr (findmatch e m p), run_tests (findmatch_tests e m p) s)"
  by (simp add: get_file_handler_def)

lemma get_file_handler_template:
  "guess_type e p = Inr (Some m) \<Longrightarrow> m \<noteq> [] \<Longrightarrow> getcaps e = Inr u \<Longrightarrow>
     \<not> truthy (findmatch e m p) \<Longrightarrow> DEFAULT_OPEN e = Some t \<Longrightarrow>
     format_file_path t (quote p) = Inr c \<Longrightarrow>
     get_file_handler e p d s = (Inr (Some c), run_tests (findmatch_tests e m p) s)"
  by (simp add: get_file_handler_def)

lemma get_file_handler_unset:
  "guess_type e p = Inr (Some m) \<Longrightarrow> m \<noteq> [] \<Longrightarrow> getcaps e = Inr u \<Longrightarrow>
     \<not> truthy (findmatch e m p) \<Longrightarrow> DEFAULT_OPEN e = None \<Longrightarrow>
     get_file_handler e p d s = (Inl AttributeError, run_tests (findmatch_tests e m p) s)"
  by (simp add: get_file_handler_def)

text \<open>The resolver answers \<open>None\<close> only from its first \<open>return\<close>.\<close>

lemma get_file_handler_None:
  assumes "fst (get_file_handler e p d s) = Inr None"
  shows "\<exists>g. guess_type e p = Inr g \<and> \<not> truthy g \<and> d = None"
proof (cases "guess_type e p")
  case (Inl x)
  with assms show ?thesis by (simp add: get_file_handler_def)
next
  case (Inr g)
  show ?thesis
  proof (cases "truthy g")
    case False
    with Inr assms show ?thesis by (simp add: get_file_handler_no_type)
  next
    case True
    then obtain m where m: "g = Some m" "m \<noteq> []" using truthy_Some by blast
    with Inr assms have False
      by (auto simp: get_file_handler_def Let_def dest: truthy_Some
            split: sum.splits option.splits if_splits)
    then show ?thesis ..
  qed
qed

lemma get_file_handler_frame:
  "ui_state (snd (get_file_handler e p d s)) = ui_state s
   \<and> isendwin (snd (get_file_handler e p d s)) = isendwin s
   \<and> list_all is_launch (new_events s (snd (get_file_handler e p d s)))"
  by (simp add: get_file_handler_def Let_def ui_state_run_tests isendwin_run_tests
        trace_run_tests new_events_def is_launch_def list_all_iff
        split: sum.splits option.splits)

lemma suspend_open_file_miss:
  "fst (get_file_handler e p None s0) = Inr None \<Longrightarrow> suspend_open_file e p s = (Inr (), s)"
proof -
  assume "fst (get_file_handler e p None s0) = Inr None"
  then obtain g where "guess_type e p = Inr g" "\<not> truthy g"
    using get_file_handler_None by blast
  then have "get_file_handler e p None s = (Inr None, s)"
    by (rule get_file_handler_no_type)
  then show ?thesis
    by (simp add: suspend_open_file_def)
qed

text \<open>
  With the empty template, a recognised type without a registered handler gives the
  empty string: \<open>open_file\<close> starts no handler, and the \<open>test=\<close> commands of the
  look-up have run.
\<close>

lemma suspend_open_file_empty_command:
  "get_file_handler e p None s = (Inr (Some []), s') \<Longrightarrow> suspend_open_file e p s = (Inr (), s')"
  by (simp add: suspend_open_file_def)

lemma suspend_open_file_frame:
  "ui_state (snd (suspend_open_file e p s)) = ui_state s
   \<and> isendwin (snd (suspend_open_file e p s)) = isendwin s
   \<and> list_all is_launch (new_events s (snd (suspend_open_file e p s)))"
proof -
  obtain r s' where g: "get_file_handler e p None s = (r, s')"
    by (cases "get_file_handler e p None s")
  from get_file_handler_frame [of e p None s] g
  have f: "ui_state s' = ui_state s" "isendwin s' = isendwin s"
    "list_all is_launch (new_events s s')"
    by simp_all
  have l: "length (trace s) \<le> length (trace s')"
    using g by (auto simp: get_file_handler_def Let_def trace_run_tests
          split: sum.splits option.splits if_splits)
  show ?thesis
    using g f l
    by (auto simp: suspend_open_file_def suspend_call_cases ui_state_log isendwin_log
          trace_log new_events_def is_launch_def split: sum.splits option.splits)
qed

lemmas demo_defs =
  demo_env_def unset_env_def empty_env_def failing_env_def raising_env_def caps_env_def
  has_ext_def

lemma demo_guess_type:
  "guess_type demo_env ''movie.mp4'' = Inr (Some ''video/mp4'')"
  "guess_type demo_env ''notes.txt'' = Inr (Some ''text/plain'')"
  "guess_type demo_env ''my notes.txt'' = Inr (Some ''text/plain'')"
  "guess_type demo_env ''README'' = Inr None"
  by (simp_all add: demo_defs)

lemma demo_findmatch:
  "findmatch demo_env ''video/mp4'' p = Some (''mpv '' @ p)"
  "findmatch demo_env ''text/plain'' p = None"
  "findmatch_tests demo_env ''video/mp4'' p = [''test -n $DISPLAY'']"
  "findmatch_tests demo_env ''text/plain'' p = []"
  "getcaps demo_env = Inr ()"
  by (simp_all add: demo_defs)

lemma demo_quote:
  "quote ''notes.txt'' = ''notes.txt''"
  "quote ''README'' = ''README''"
  "quote ''my notes.txt'' = [squote] @ ''my notes.txt'' @ [squote]"
  by (simp_all add: quote_def safe_char_def replace_squote_def squote_def)

section \<open>The suspend scope\<close>

text \<open>
  C1 (symmetry), as the code has it. \<open>__exit__\<close> does not put back what \<open>__enter__\<close>
  found: it sets fixed values. So a scope started in the state \<open>__exit__\<close> leaves
  (every region on \<open>win.refresh\<close>, echo off, cbreak on, keypad decoding on, cursor
  hidden) ends with the same terminal modes and refresh strategies, whatever its body
  does and whether the body returns or raises.
\<close>

theorem suspend_scope_symmetry:
  "ui_state s = active_ui \<Longrightarrow> ui_state (snd (suspend_scope body s)) = ui_state s"
  by (simp add: suspend_scope_pair ui_state_suspend_exit)

theorem suspend_scope_symmetry_witness:
  "ui_state active_state = active_ui
   \<and> fst (suspend_scope (suspend_call failing_env ''less notes.txt'') active_state) = Inl OSError
   \<and> ui_state (snd (suspend_scope (suspend_call failing_env ''less notes.txt'') active_state))
       = ui_state active_state"
proof -
  have h: "ui_state active_state = active_ui"
    by (simp add: ui_state_def active_state_def active_ui_def)
  have r: "fst (suspend_scope (suspend_call failing_env ''less notes.txt'') active_state)
             = Inl OSError"
    by (simp add: suspend_scope_pair suspend_call_cases failing_env_def)
  show ?thesis
    using h r suspend_scope_symmetry [OF h, of "suspend_call failing_env ''less notes.txt''"]
    by simp
qed

text \<open>
  C1 as it is written fails for a scope entered with echo on: the scope ends with
  echo off.
\<close>

theorem suspend_scope_symmetry_counterexample:
  "echo echo_state = True
   \<and> echo (snd (suspend_scope (suspend_call demo_env ''true'') echo_state)) = False
   \<and> ui_state (snd (suspend_scope (suspend_call demo_env ''true'') echo_state))
       \<noteq> ui_state echo_state"
proof -
  have a: "ui_state (snd (suspend_scope (suspend_call demo_env ''true'') echo_state)) = active_ui"
    by (simp add: suspend_scope_pair ui_state_suspend_exit)
  have b: "ui_state echo_state \<noteq> active_ui"
    by (simp add: ui_state_def echo_state_def active_state_def active_ui_def)
  have c: "echo (snd (suspend_scope (suspend_call demo_env ''true'') echo_state)) = False"
    using a by (simp add: ui_state_def active_ui_def)
  show ?thesis
    using a b c by (simp add: echo_state_def)
qed

text \<open>
  C2 (guaranteed release). A scope ends with the result of its body, an exception
  included, and \<open>__exit__\<close> has run once after the body: the trace is the one the
  body left followed by the events of \<open>__exit__\<close> (the three assignments of
  \<open>win.refresh\<close>, \<open>noecho\<close>, \<open>cbreak\<close>, \<open>keypad(True)\<close>, \<open>curs_set(0)\<close>,
  \<open>doupdate\<close>), and the state has what these actions set: every region on
  \<open>win.refresh\<close>, echo off, cbreak on, keypad decoding on, cursor hidden, curses
  resumed.
\<close>

theorem guaranteed_release:
  "fst (suspend_scope body s) = fst (body (suspend_enter s))
   \<and> trace (snd (suspend_scope body s)) = trace (snd (body (suspend_enter s))) @ exit_events
   \<and> new_events (snd (body (suspend_enter s))) (snd (suspend_scope body s)) = exit_events
   \<and> ui_state (snd (suspend_scope body s)) = active_ui
   \<and> isendwin (snd (suspend_scope body s)) = False"
  by (simp add: suspend_scope_pair trace_suspend_exit new_events_def ui_state_suspend_exit
        isendwin_suspend_exit)

theorem guaranteed_release_witness:
  "fst (suspend_scope (suspend_call failing_env ''mpv movie.mp4'') active_state) = Inl OSError
   \<and> trace (snd (suspend_scope (suspend_call failing_env ''mpv movie.mp4'') active_state))
       = enter_events @ [Popen ''mpv movie.mp4'' None] @ exit_events
   \<and> count_list
         (trace (snd (suspend_scope (suspend_call failing_env ''mpv movie.mp4'') active_state)))
         Doupdate = 1
   \<and> ui_state (snd (suspend_scope (suspend_call failing_env ''mpv movie.mp4'') active_state))
       = (Win_refresh, Win_refresh, Win_refresh, False, True, True, 0)
   \<and> isendwin (snd (suspend_scope (suspend_call failing_env ''mpv movie.mp4'') active_state))
       = False"
proof -
  have b: "fst (suspend_call failing_env ''mpv movie.mp4'' (suspend_enter active_state))
             = Inl OSError"
    by (simp add: suspend_call_cases failing_env_def)
  have t: "trace (snd (suspend_call failing_env ''mpv movie.mp4'' (suspend_enter active_state)))
             = enter_events @ [Popen ''mpv movie.mp4'' None]"
    by (simp add: suspend_call_cases trace_log trace_suspend_enter active_state_def)
  show ?thesis
    using b t guaranteed_release [of "suspend_call failing_env ''mpv movie.mp4''" active_state]
    by (simp add: enter_events_def exit_events_def active_ui_def)
qed

text \<open>
  C6, as the code has it. \<open>__enter__\<close> sets the refresh strategy of each of the three
  regions to \<open>win.noutrefresh\<close>, the batched variant, whatever it was; \<open>__exit__\<close> sets
  each to \<open>win.refresh\<close>, the immediate variant, and calls \<open>curses.doupdate()\<close> once,
  as its last action.
\<close>

theorem refresh_strategy_switch:
  "batched (chats_refresh (suspend_enter s)) \<and> batched (msgs_refresh (suspend_enter s))
   \<and> batched (status_refresh (suspend_enter s))
   \<and> immediate (chats_refresh (suspend_exit s)) \<and> immediate (msgs_refresh (suspend_exit s))
   \<and> immediate (status_refresh (suspend_exit s))
   \<and> new_events s (suspend_exit s) = exit_events
   \<and> last exit_events = Doupdate \<and> count_list exit_events Doupdate = 1"
proof -
  have "ui_state (suspend_enter s) = suspended_ui" "ui_state (suspend_exit s) = active_ui"
    by (rule ui_state_suspend_enter, rule ui_state_suspend_exit)
  then show ?thesis
    by (simp add: ui_state_def suspended_ui_def active_ui_def batched_def immediate_def
          new_events_def trace_suspend_exit exit_events_def)
qed

theorem refresh_strategy_switch_witness:
  "chats_refresh (suspend_enter active_state) = Win_noutrefresh
   \<and> chats_refresh (suspend_exit (suspend_enter active_state)) = Win_refresh
   \<and> new_events (suspend_enter active_state) (suspend_exit (suspend_enter active_state))
       = exit_events"
  using refresh_strategy_switch [of active_state]
    refresh_strategy_switch [of "suspend_enter active_state"]
  by (simp add: batched_def immediate_def)

text \<open>
  C6 as it is written fails: after \<open>__enter__\<close> a region is not on the immediate
  variant, and after \<open>__exit__\<close> it is not on the batched one.
\<close>

theorem refresh_strategy_switch_counterexample:
  "\<not> immediate (chats_refresh (suspend_enter active_state))
   \<and> \<not> batched (chats_refresh (suspend_exit (suspend_enter active_state)))"
proof -
  have "ui_state (suspend_enter active_state) = suspended_ui"
    "ui_state (suspend_exit (suspend_enter active_state)) = active_ui"
    by (rule ui_state_suspend_enter, rule ui_state_suspend_exit)
  then show ?thesis
    by (simp add: ui_state_def suspended_ui_def active_ui_def batched_def immediate_def)
qed

text \<open>
  C8 (idempotent resume). Running \<open>__exit__\<close> a second time leaves the refresh
  strategies and the terminal modes as the first run left them: every exit action
  sets a value, none toggles one.
\<close>

theorem suspend_exit_idempotent:
  "ui_state (suspend_exit (suspend_exit s)) = ui_state (suspend_exit s)
   \<and> isendwin (suspend_exit (suspend_exit s)) = isendwin (suspend_exit s)"
  by (simp add: ui_state_suspend_exit isendwin_suspend_exit)

theorem suspend_exit_idempotent_witness:
  "ui_state (suspend_exit (suspend_exit echo_state)) = active_ui
   \<and> ui_state (suspend_exit echo_state) = active_ui"
  using suspend_exit_idempotent [of echo_state]
  by (simp add: ui_state_suspend_exit)

section \<open>The resolver\<close>

text \<open>
  C3 (fallback order), as the code has it. A registered handler of a recognised media
  type is returned as it is. A recognised media type without a registered handler
  gives the \<open>DEFAULT_OPEN\<close> template with the shell-quoted path in the place of
  \<open>{file_path}\<close>. An unrecognised media type gives the caller's \<open>default\<close> argument
  as it is, absent when the caller passed none, whatever \<open>DEFAULT_OPEN\<close> is.
\<close>

theorem resolver_fallback_order:
  "(guess_type e p = Inr (Some m) \<and> m \<noteq> [] \<and> getcaps e = Inr u
        \<and> findmatch e m p = Some h \<and> h \<noteq> []
      \<longrightarrow> fst (get_file_handler e p d s) = Inr (Some h))
   \<and> (guess_type e p = Inr (Some m) \<and> m \<noteq> [] \<and> getcaps e = Inr u
        \<and> \<not> truthy (findmatch e m p)
        \<and> DEFAULT_OPEN e = Some (pre @ ''{file_path}'' @ post)
        \<and> brace_free pre \<and> brace_free post
      \<longrightarrow> fst (get_file_handler e p d s) = Inr (Some (pre @ quote p @ post)))
   \<and> (guess_type e p = Inr g \<and> \<not> truthy g \<longrightarrow> get_file_handler e p d s = (Inr d, s))"
proof (intro conjI impI)
  assume "guess_type e p = Inr (Some m) \<and> m \<noteq> [] \<and> getcaps e = Inr u
        \<and> findmatch e m p = Some h \<and> h \<noteq> []"
  then show "fst (get_file_handler e p d s) = Inr (Some h)"
    using get_file_handler_registry [of e p m u d s] by simp
next
  assume a: "guess_type e p = Inr (Some m) \<and> m \<noteq> [] \<and> getcaps e = Inr u
        \<and> \<not> truthy (findmatch e m p)
        \<and> DEFAULT_OPEN e = Some (pre @ ''{file_path}'' @ post)
        \<and> brace_free pre \<and> brace_free post"
  then have "format_file_path (pre @ ''{file_path}'' @ post) (quote p)
               = Inr (pre @ quote p @ post)"
    unfolding format_file_path_def by (intro scan_placeholder) simp_all
  with a show "fst (get_file_handler e p d s) = Inr (Some (pre @ quote p @ post))"
    using get_file_handler_template
      [of e p m u "pre @ ''{file_path}'' @ post" "pre @ quote p @ post" d s]
    by simp
next
  assume "guess_type e p = Inr g \<and> \<not> truthy g"
  then show "get_file_handler e p d s = (Inr d, s)"
    using get_file_handler_no_type [of e p g d s] by simp
qed

theorem resolver_fallback_order_witness:
  "fst (get_file_handler demo_env ''movie.mp4'' None active_state)
     = Inr (Some ''mpv movie.mp4'')
   \<and> fst (get_file_handler demo_env ''notes.txt'' None active_state)
       = Inr (Some ''less notes.txt'')
   \<and> fst (get_file_handler demo_env ''my notes.txt'' None active_state)
       = Inr (Some (''less '' @ [squote] @ ''my notes.txt'' @ [squote]))
   \<and> get_file_handler demo_env ''README'' (Some ''xdg-open README'') active_state
       = (Inr (Some ''xdg-open README''), active_state)
   \<and> get_file_handler demo_env ''README'' None active_state = (Inr None, active_state)"
proof -
  have t: "DEFAULT_OPEN demo_env = Some (''less '' @ ''{file_path}'' @ [])"
    by (simp add: demo_defs)
  have b: "brace_free ''less ''" "brace_free []"
    by (simp_all add: brace_free_def)
  show ?thesis
    using t b demo_guess_type demo_findmatch demo_quote
      resolver_fallback_order [of demo_env "''movie.mp4''" "''video/mp4''" "()"
        "''mpv movie.mp4''" None active_state "''less ''" "[]" None]
      resolver_fallback_order [of demo_env "''notes.txt''" "''text/plain''" "()" "[]" None
        active_state "''less ''" "[]" None]
      resolver_fallback_order [of demo_env "''my notes.txt''" "''text/plain''" "()" "[]" None
        active_state "''less ''" "[]" None]
      resolver_fallback_order [of demo_env "''README''" "[]" "()" "[]"
        "Some ''xdg-open README''" active_state "[]" "[]" None]
      resolver_fallback_order [of demo_env "''README''" "[]" "()" "[]" None active_state
        "[]" "[]" None]
    by simp
qed

text \<open>
  C3 as it is written fails where the media type is unrecognised: with the template
  \<open>less {file_path}\<close> configured, the resolver called as \<open>open_file\<close> calls it
  returns nothing for \<open>README\<close>, not the template.
\<close>

theorem resolver_fallback_order_counterexample:
  "guess_type demo_env ''README'' = Inr None
   \<and> DEFAULT_OPEN demo_env = Some ''less {file_path}''
   \<and> fst (get_file_handler demo_env ''README'' None active_state) = Inr None
   \<and> fst (get_file_handler demo_env ''README'' None active_state) \<noteq> Inr (Some ''less README'')
   \<and> fst (get_file_handler demo_env ''README'' None active_state)
       \<noteq> Inr (Some ''less {file_path}'')"
  by (simp add: get_file_handler_def demo_defs)




section \<open>The payload operations\<close>

text \<open>
  C5 (no-op on a resolution miss). When the resolver gives \<open>None\<close> for a path,
  \<open>open_file\<close> returns normally and leaves the state as it was, so it starts no
  process; in a scope, all that happens is the entry and the exit actions.
\<close>

theorem open_file_noop_on_miss:
  "fst (get_file_handler e p None s0) = Inr None \<Longrightarrow>
     suspend_open_file e p s = (Inr (), s)
     \<and> suspend_scope (suspend_open_file e p) s = (Inr (), suspend_exit (suspend_enter s))
     \<and> new_events s (snd (suspend_scope (suspend_open_file e p) s))
         = enter_events @ exit_events"
  by (simp add: suspend_open_file_miss [of e p s0] suspend_scope_pair new_events_def
        trace_suspend_exit trace_suspend_enter)

theorem open_file_noop_on_miss_witness:
  "fst (get_file_handler demo_env ''README'' None active_state) = Inr None
   \<and> suspend_open_file demo_env ''README'' active_state = (Inr (), active_state)
   \<and> trace (snd (suspend_scope (suspend_open_file demo_env ''README'') active_state))
       = enter_events @ exit_events
   \<and> filter is_launch
         (trace (snd (suspend_scope (suspend_open_file demo_env ''README'') active_state)))
       = []"
proof -
  have h: "fst (get_file_handler demo_env ''README'' None active_state) = Inr None"
    by (simp add: get_file_handler_def demo_guess_type)
  have t: "trace active_state = []"
    by (simp add: active_state_def)
  show ?thesis
    using h t open_file_noop_on_miss [OF h, of active_state]
    by (simp add: new_events_def trace_suspend_enter trace_suspend_exit enter_events_def
          exit_events_def is_launch_def)
qed

text \<open>
  C7 (a failing child is not surfaced). When the child started by \<open>call\<close> or by
  \<open>run_with_input\<close> ends with an exit status, whichever it is (127 for a command the
  shell does not find), the operation returns normally, the state it leaves does not
  depend on the status, exactly one process was started, and in a scope the exit
  actions follow.
\<close>

theorem child_failure_not_surfaced:
  "(shell e cmd None = Exited rc
      \<longrightarrow> suspend_call e cmd s = (Inr (), log (Popen cmd None) s)
          \<and> fst (suspend_scope (suspend_call e cmd) s) = Inr ()
          \<and> new_events s (snd (suspend_scope (suspend_call e cmd) s))
              = enter_events @ [Popen cmd None] @ exit_events)
   \<and> (shell e cmd (Some text) = Exited rc
      \<longrightarrow> suspend_run_with_input e cmd text s = (Inr (), log (Popen cmd (Some text)) s)
          \<and> fst (suspend_scope (suspend_run_with_input e cmd text) s) = Inr ()
          \<and> new_events s (snd (suspend_scope (suspend_run_with_input e cmd text) s))
              = enter_events @ [Popen cmd (Some text)] @ exit_events)"
  by (simp add: suspend_call_cases suspend_run_with_input_cases suspend_scope_pair
        new_events_def trace_suspend_exit trace_suspend_enter trace_log)

theorem child_failure_not_surfaced_witness:
  "shell demo_env ''no-such-viewer x'' None = Exited 127
   \<and> suspend_call demo_env ''no-such-viewer x'' active_state
       = (Inr (), log (Popen ''no-such-viewer x'' None) active_state)
   \<and> fst (suspend_scope (suspend_run_with_input demo_env ''false'' ''draft'') active_state)
       = Inr ()
   \<and> trace (snd (suspend_scope (suspend_run_with_input demo_env ''false'' ''draft'')
         active_state))
       = enter_events @ [Popen ''false'' (Some ''draft'')] @ exit_events"
proof -
  have h: "shell demo_env ''no-such-viewer x'' None = Exited 127"
    "shell demo_env ''false'' (Some ''draft'') = Exited 127"
    by (simp_all add: demo_defs)
  have t: "trace active_state = []"
    by (simp add: active_state_def)
  show ?thesis
    using h t
      child_failure_not_surfaced [of demo_env "''no-such-viewer x''" 127 active_state "''draft''"]
      child_failure_not_surfaced [of demo_env "''false''" 127 active_state "''draft''"]
    by (simp add: new_events_def)
qed

text \<open>
  C9 (frame). \<open>call\<close>, \<open>run_with_input\<close> and \<open>open_file\<close> leave the refresh strategies
  and the terminal modes as they were, on every outcome, and add nothing but process
  launches to the trace (for \<open>open_file\<close>, the \<open>test=\<close> commands of the mailcap look-up
  and the handler). \<open>__enter__\<close> and \<open>__exit__\<close> each run all their actions, in
  order, and leave the one value of these fields that is theirs.
\<close>

theorem payload_frame:
  "ui_state (snd (suspend_call e cmd s)) = ui_state s
   \<and> isendwin (snd (suspend_call e cmd s)) = isendwin s
   \<and> list_all is_popen (new_events s (snd (suspend_call e cmd s)))
   \<and> ui_state (snd (suspend_run_with_input e cmd text s)) = ui_state s
   \<and> isendwin (snd (suspend_run_with_input e cmd text s)) = isendwin s
   \<and> list_all is_popen (new_events s (snd (suspend_run_with_input e cmd text s)))
   \<and> ui_state (snd (suspend_open_file e p s)) = ui_state s
   \<and> isendwin (snd (suspend_open_file e p s)) = isendwin s
   \<and> list_all is_launch (new_events s (snd (suspend_open_file e p s)))
   \<and> new_events s (suspend_enter s) = enter_events \<and> ui_state (suspend_enter s) = suspended_ui
   \<and> new_events s (suspend_exit s) = exit_events \<and> ui_state (suspend_exit s) = active_ui"
  using suspend_open_file_frame [of e p s]
  by (simp add: suspend_call_cases suspend_run_with_input_cases ui_state_log trace_log
        isendwin_log new_events_def is_popen_def trace_suspend_enter trace_suspend_exit
        ui_state_suspend_enter ui_state_suspend_exit)

theorem payload_frame_witness:
  "ui_state (snd (suspend_call failing_env ''mpv movie.mp4'' (suspend_enter active_state)))
     = suspended_ui
   \<and> ui_state (snd (suspend_open_file demo_env ''movie.mp4'' (suspend_enter active_state)))
     = suspended_ui
   \<and> new_events (suspend_enter active_state)
        (snd (suspend_open_file demo_env ''movie.mp4'' (suspend_enter active_state)))
     = [Os_system ''test -n $DISPLAY'', Popen ''mpv movie.mp4'' None]
   \<and> ui_state (snd (suspend_run_with_input demo_env ''less'' ''draft''
         (suspend_enter active_state))) = suspended_ui"
proof -
  have o: "suspend_open_file demo_env ''movie.mp4'' (suspend_enter active_state)
             = (Inr (), log (Popen ''mpv movie.mp4'' None)
                  (log (Os_system ''test -n $DISPLAY'') (suspend_enter active_state)))"
    by (simp add: suspend_open_file_def get_file_handler_def demo_guess_type demo_findmatch
          run_tests_def suspend_call_cases demo_defs)
  have n: "new_events (suspend_enter active_state)
        (snd (suspend_open_file demo_env ''movie.mp4'' (suspend_enter active_state)))
     = [Os_system ''test -n $DISPLAY'', Popen ''mpv movie.mp4'' None]"
    by (simp add: o new_events_def trace_log)
  show ?thesis
    using n
      payload_frame [of failing_env "''mpv movie.mp4''" "suspend_enter active_state"
        "''draft''" "''movie.mp4''"]
      payload_frame [of demo_env "''less''" "suspend_enter active_state" "''draft''"
        "''movie.mp4''"]
      payload_frame [of demo_env "''less''" active_state "''draft''" "''movie.mp4''"]
    by simp
qed

text \<open>
  C10. For a path whose media type is not guessed, the resolver returns its
  \<open>default\<close> argument as it is, and \<open>open_file\<close>, which passes none, returns without
  doing anything, whatever \<open>DEFAULT_OPEN\<close> is. The value of \<open>DEFAULT_OPEN\<close> matters
  to the resolver only when a media type is guessed and the registry has no command
  for it.
\<close>

theorem open_file_unknown_type_noop:
  "(guess_type e p = Inr g \<and> \<not> truthy g
      \<longrightarrow> get_file_handler e p d s = (Inr d, s) \<and> suspend_open_file e p s = (Inr (), s))
   \<and> ((guess_type e p = Inr g \<and> \<not> truthy g) \<or> registry_match e p
      \<longrightarrow> get_file_handler (e\<lparr>DEFAULT_OPEN := t\<rparr>) p d s = get_file_handler e p d s)"
proof (intro conjI impI)
  assume a: "guess_type e p = Inr g \<and> \<not> truthy g"
  show "get_file_handler e p d s = (Inr d, s)"
    using a get_file_handler_no_type [of e p g d s] by simp
  have "get_file_handler e p None s = (Inr None, s)"
    using a get_file_handler_no_type [of e p g None s] by simp
  then show "suspend_open_file e p s = (Inr (), s)"
    by (simp add: suspend_open_file_def)
next
  assume "(guess_type e p = Inr g \<and> \<not> truthy g) \<or> registry_match e p"
  then show "get_file_handler (e\<lparr>DEFAULT_OPEN := t\<rparr>) p d s = get_file_handler e p d s"
    by (cases "guess_type e p"; cases g)
       (auto simp: get_file_handler_def registry_match_def Let_def
          split: sum.splits option.splits)
qed

theorem open_file_unknown_type_noop_witness:
  "DEFAULT_OPEN demo_env = Some ''less {file_path}''
   \<and> get_file_handler demo_env ''README'' (Some ''cat'') active_state
       = (Inr (Some ''cat''), active_state)
   \<and> suspend_open_file demo_env ''README'' active_state = (Inr (), active_state)
   \<and> get_file_handler (demo_env\<lparr>DEFAULT_OPEN := None\<rparr>) ''movie.mp4'' None active_state
       = get_file_handler demo_env ''movie.mp4'' None active_state"
proof -
  have r: "registry_match demo_env ''movie.mp4''"
    by (simp add: registry_match_def demo_guess_type demo_findmatch)
  have t: "DEFAULT_OPEN demo_env = Some ''less {file_path}''"
    by (simp add: demo_defs)
  show ?thesis
    using r t demo_guess_type
      open_file_unknown_type_noop [of demo_env "''README''" None "Some ''cat''" active_state None]
      open_file_unknown_type_noop [of demo_env "''movie.mp4''" None None active_state None]
    by simp
qed

end
